theory Spec2Isabelle
  imports Complex_Main "HOL-Library.Char_ord" "HOL-Library.List_Lexorder" "HOL-Library.Log_Nat"
begin

section \<open>FoodHub order lifecycle: data model\<close>

text \<open>
  The embedding follows \<^verbatim>\<open>Backend/models/Order.js\<close>, \<^verbatim>\<open>Backend/models/Restaurant.js\<close>,
  \<^verbatim>\<open>Backend/models/MenuItem.js\<close>, \<^verbatim>\<open>Backend/routes/orders.js\<close> and the payment and
  admin routes. Object ids are natural numbers, dates are milliseconds since the epoch
  (\<open>new Date()\<close> is the parameter \<open>now\<close> of a handler), and a JavaScript Number is the
  rational that the IEEE-754 double denotes: every arithmetic operation of the handlers
  rounds its exact result to the nearest double. Socket notifications (\<open>req.io\<close>) have no
  effect on the order collection and are left out. A document that a handler loads from
  the collection has passed the validators of the document mapper when it was stored,
  and the handlers assign to it only values that their own validators admit, so
  \<open>save\<close> of a loaded document writes it; \<open>save\<close> of a new document runs the validators.
\<close>

type_synonym object_id = nat
type_synonym date = nat
type_synonym number = rat

section \<open>JavaScript numbers\<close>

text \<open>
  A finite double is the rational it denotes. For \<open>x \<noteq> 0\<close>, \<open>binade x\<close> is the exponent
  \<open>e\<close> with \<open>2^e \<le> |x| < 2^(e+1)\<close>, and \<open>to_double x\<close> rounds \<open>x\<close> to the nearest
  multiple of \<open>2^(e-52)\<close> (of \<open>2^-1074\<close> below the normal range), a tie going to the even
  multiple: round to nearest, ties to even, with 53 significant bits. Results beyond
  the largest double, where JavaScript continues with \<open>Infinity\<close>, and \<open>NaN\<close> are outside
  the model. A decimal literal of the source and a number of a JSON body or of a stored
  document is the double nearest to it.
\<close>

definition round_half_even :: "rat \<Rightarrow> int" where
  "round_half_even x =
     (let f = \<lfloor>x\<rfloor>; d = x - of_int f
      in if d < 1 / 2 then f else if 1 / 2 < d then f + 1 else if even f then f else f + 1)"

definition pow2 :: "int \<Rightarrow> rat" where
  "pow2 e = (if 0 \<le> e then 2 ^ nat e else 1 / 2 ^ nat (- e))"

definition binade :: "rat \<Rightarrow> int" where
  "binade x =
     (let (p, q) = quotient_of \<bar>x\<bar>; k = bitlen p - bitlen q
      in if pow2 k \<le> \<bar>x\<bar> then k else k - 1)"

definition to_double :: "rat \<Rightarrow> number" where
  "to_double x =
     (if x = 0 then 0
      else let ulp = pow2 (max (binade x) (- 1022) - 52)
           in of_int (round_half_even (x / ulp)) * ulp)"

text \<open>The operators \<open>+\<close>, \<open>-\<close>, \<open>*\<close> and \<open>/\<close> on Numbers (the divisors of the handlers
  are the literal 100).\<close>

definition dadd :: "number \<Rightarrow> number \<Rightarrow> number" where
  "dadd a b = to_double (a + b)"

definition dsub :: "number \<Rightarrow> number \<Rightarrow> number" where
  "dsub a b = to_double (a - b)"

definition dmul :: "number \<Rightarrow> number \<Rightarrow> number" where
  "dmul a b = to_double (a * b)"

definition ddiv :: "number \<Rightarrow> number \<Rightarrow> number" where
  "ddiv a b = to_double (a / b)"

text \<open>\<open>Math.round\<close>: the integer nearest to the double, a tie going up.\<close>

definition Math_round :: "number \<Rightarrow> int" where
  "Math_round x = \<lfloor>x + 1 / 2\<rfloor>"

text \<open>The conversion of a Number to a string (in a template literal, or by
  \<open>toString\<close>) is the one of the language; the handlers that render a Number take it
  as their argument \<open>toString\<close>. An exception that a handler catches is one of these.\<close>

datatype js_error = TypeError | ValidationError

section \<open>Documents and responses\<close>

text \<open>The \<open>enum\<close> of \<open>status\<close> in \<open>orderSchema\<close>, in the order of the schema.\<close>

datatype order_status =
  pending | confirmed | preparing | ready_for_pickup | picked_up
  | on_the_way | delivered | cancelled | refunded

text \<open>The string of a status, as it is interpolated into messages and timeline entries.\<close>

fun status_name :: "order_status \<Rightarrow> string" where
  "status_name pending = ''pending''"
| "status_name confirmed = ''confirmed''"
| "status_name preparing = ''preparing''"
| "status_name ready_for_pickup = ''ready_for_pickup''"
| "status_name picked_up = ''picked_up''"
| "status_name on_the_way = ''on_the_way''"
| "status_name delivered = ''delivered''"
| "status_name cancelled = ''cancelled''"
| "status_name refunded = ''refunded''"

text \<open>The \<open>enum\<close> of \<open>payment.status\<close>.\<close>

datatype payment_status =
  pay_pending | pay_processing | pay_completed | pay_failed | pay_refunded

datatype order_type = delivery | pickup

datatype role = role_customer | role_restaurant | role_delivery | role_admin

text \<open>\<open>req.user\<close>, as the \<open>protect\<close> middleware attaches it. The user schema has no
  \<open>restaurantId\<close> path; the handlers read it all the same, so it is an optional field.\<close>

record req_user =
  user_id :: object_id
  user_role :: role
  user_restaurantId :: "object_id option"

record timeline_entry =
  te_status :: string
  te_message :: string
  te_timestamp :: date
  te_updatedBy :: "object_id option"

record payment =
  pay_status :: payment_status
  stripePaymentIntentId :: "string option"
  stripeChargeId :: "string option"
  paidAt :: "date option"
  refundedAt :: "date option"
  refundAmount :: "number option"

record delivery_tracking =
  dt_status :: string
  dt_deliveryPerson :: "object_id option"
  dt_estimatedDeliveryTime :: "date option"
  dt_actualDeliveryTime :: "date option"
  dt_currentLocation :: "(number \<times> number \<times> date) option"
  dt_deliveryNotes :: "string option"
  dt_deliveryPhoto :: "string option"

record order_item =
  oi_menuItem :: object_id
  oi_name :: string
  oi_price :: number
  oi_quantity :: number
  oi_subtotal :: number

record pricing =
  pr_subtotal :: number
  pr_tax :: number
  pr_deliveryFee :: number
  pr_serviceFee :: number
  pr_discount :: number
  pr_total :: number

record order =
  order_id :: object_id
  orderNumber :: "string option"
  customer :: object_id
  restaurant :: object_id
  items :: "order_item list"
  status :: order_status
  orderType :: order_type
  order_pricing :: pricing
  order_payment :: payment
  deliveryTracking :: "delivery_tracking option"
  timeline :: "timeline_entry list"
  estimatedPreparationTime :: number
  estimatedDeliveryTime :: "date option"
  actualDeliveryTime :: "date option"
  restaurantNotes :: "string option"
  cancellationReason :: "string option"
  cancelledBy :: "object_id option"
  cancelledAt :: "date option"
  refundReason :: "string option"
  refundedBy :: "object_id option"

text \<open>The JSON envelope of a response: HTTP status code, \<open>success\<close> and \<open>message\<close>.\<close>

datatype response = Response nat bool string

fun resp_success :: "response \<Rightarrow> bool" where
  "resp_success (Response code ok msg) = ok"

fun status_code :: "response \<Rightarrow> nat" where
  "status_code (Response code ok msg) = code"

section \<open>The order collection\<close>

text \<open>The collection is the list of its documents. \<open>Order.findById\<close> and
  \<open>Order.findOne\<close> return the first document that matches.\<close>

definition findById :: "order list \<Rightarrow> object_id \<Rightarrow> order option" where
  "findById store oid = find (\<lambda>d. order_id d = oid) store"

definition findByIntent :: "order list \<Rightarrow> string \<Rightarrow> order option" where
  "findByIntent store pid =
     find (\<lambda>d. stripePaymentIntentId (order_payment d) = Some pid) store"

fun write_back :: "order \<Rightarrow> order list \<Rightarrow> order list" where
  "write_back doc [] = []"
| "write_back doc (d # ds) =
     (if order_id d = order_id doc then doc # ds else d # write_back doc ds)"

text \<open>
  \<^verbatim>\<open>orderSchema.pre('save', ...)\<close>, "Add timeline entry when status changes": when the
  status path is modified and the document is not new, one entry is pushed. A document
  that a handler loaded is not new, and the document mapper reports a path as modified
  when the value assigned differs from the one that was loaded; \<open>loaded\<close> is the
  document as the handler read it.
\<close>

definition isModified_status :: "order \<Rightarrow> order \<Rightarrow> bool" where
  "isModified_status loaded doc = (status doc \<noteq> status loaded)"

definition timeline_hook :: "date \<Rightarrow> order \<Rightarrow> order \<Rightarrow> order" where
  "timeline_hook now loaded doc =
     (if isModified_status loaded doc
      then doc\<lparr>timeline := timeline doc @
             [\<lparr>te_status = status_name (status doc),
               te_message = ''Order status changed to '' @ status_name (status doc),
               te_timestamp = now, te_updatedBy = None\<rparr>]\<rparr>
      else doc)"

text \<open>\<open>order.save()\<close> on a loaded document: the hook runs, then the document replaces
  the stored one.\<close>

definition save :: "date \<Rightarrow> order \<Rightarrow> order \<Rightarrow> order list \<Rightarrow> order list" where
  "save now loaded doc store = write_back (timeline_hook now loaded doc) store"

definition push_timeline :: "timeline_entry \<Rightarrow> order \<Rightarrow> order" where
  "push_timeline e doc = doc\<lparr>timeline := timeline doc @ [e]\<rparr>"

section \<open>Order methods\<close>

text \<open>\<^verbatim>\<open>orderSchema.methods.canBeCancelled\<close>.\<close>

definition nonCancellableStatuses :: "order_status list" where
  "nonCancellableStatuses = [picked_up, on_the_way, delivered, cancelled, refunded]"

definition canBeCancelled :: "order \<Rightarrow> bool" where
  "canBeCancelled doc = (status doc \<notin> set nonCancellableStatuses)"

section \<open>Cancel order: PUT /api/orders/:id/cancel\<close>

text \<open>The handler behind \<open>protect\<close>; \<open>reason\<close> is \<open>req.body.reason\<close>, which the
  validator \<open>notEmpty\<close> requires.\<close>

definition cancelOrder ::
  "date \<Rightarrow> req_user \<Rightarrow> object_id \<Rightarrow> string \<Rightarrow> order list \<Rightarrow> response \<times> order list" where
  "cancelOrder now user oid reason store =
     (if reason = [] then (Response 400 False ''Validation failed'', store)
      else case findById store oid of
        None \<Rightarrow> (Response 404 False ''Order not found'', store)
      | Some doc \<Rightarrow>
          let canCancel = (customer doc = user_id user \<or> user_role user = role_admin \<or>
                 (user_role user = role_restaurant \<and>
                  Some (restaurant doc) = user_restaurantId user))
          in if \<not> canCancel then (Response 403 False ''Access denied'', store)
             else if \<not> canBeCancelled doc
             then (Response 400 False ''Order cannot be cancelled at this stage'', store)
             else
               let doc1 = doc\<lparr>status := cancelled, cancellationReason := Some reason,
                          cancelledBy := Some (user_id user), cancelledAt := Some now\<rparr>;
                   doc2 = push_timeline
                          \<lparr>te_status = ''cancelled'',
                           te_message = ''Order cancelled: '' @ reason,
                           te_timestamp = now, te_updatedBy = Some (user_id user)\<rparr> doc1
               in (Response 200 True ''Order cancelled successfully'',
                   save now doc doc2 store))"

section \<open>Role gate\<close>

text \<open>Modelled from the spec: the middleware \<open>authorize\<close> of \<^verbatim>\<open>middleware/auth.js\<close> is
  not among the sources. The spec says that "authorization additionally checks role":
  a request passes when the role of its user is one of the listed roles, and is refused
  with status 403 otherwise.\<close>

definition authorize :: "role list \<Rightarrow> req_user \<Rightarrow> bool" where
  "authorize roles user = (user_role user \<in> set roles)"

text \<open>A JavaScript string is truthy when it is present and not empty.\<close>

fun truthy :: "string option \<Rightarrow> bool" where
  "truthy None = False"
| "truthy (Some s) = (s \<noteq> [])"

section \<open>Restaurants\<close>

record hours =
  h_day :: string
  h_open :: string
  h_close :: string
  h_isClosed :: bool

record restaurant_doc =
  r_id :: object_id
  r_owner :: object_id
  r_isActive :: bool
  r_isOpen :: bool
  r_operatingHours :: "hours list"
  r_deliveryFee :: number
  r_minimumOrder :: number
  r_deliveryRadius :: number
  r_lat :: number
  r_lng :: number

definition Restaurant_findById :: "restaurant_doc list \<Rightarrow> object_id \<Rightarrow> restaurant_doc option" where
  "Restaurant_findById rs rid = find (\<lambda>r. r_id r = rid) rs"

definition Restaurant_findByOwner :: "restaurant_doc list \<Rightarrow> object_id \<Rightarrow> restaurant_doc option" where
  "Restaurant_findByOwner rs uid = find (\<lambda>r. r_owner r = uid) rs"

section \<open>Status update by restaurant or admin: PUT /api/orders/:id/status\<close>

definition updateOrderStatus ::
  "date \<Rightarrow> req_user \<Rightarrow> restaurant_doc list \<Rightarrow> object_id \<Rightarrow> order_status \<Rightarrow> string option
     \<Rightarrow> order list \<Rightarrow> response \<times> order list" where
  "updateOrderStatus now user rs oid new_status notes store =
     (if \<not> authorize [role_restaurant, role_admin] user
      then (Response 403 False ''Not authorized'', store)
      else if new_status \<notin> set [confirmed, preparing, ready_for_pickup, cancelled]
      then (Response 400 False ''Validation failed'', store)
      else case findById store oid of
        None \<Rightarrow> (Response 404 False ''Order not found'', store)
      | Some doc \<Rightarrow>
          if user_role user = role_restaurant \<and>
             (case Restaurant_findByOwner rs (user_id user) of
                None \<Rightarrow> True
              | Some r \<Rightarrow> restaurant doc \<noteq> r_id r)
          then (Response 403 False ''Access denied'', store)
          else
            let doc1 = doc\<lparr>status := new_status\<rparr>;
                doc2 = (if truthy notes then doc1\<lparr>restaurantNotes := notes\<rparr> else doc1);
                doc3 = push_timeline
                       \<lparr>te_status = status_name new_status,
                        te_message = ''Order status updated to '' @ status_name new_status,
                        te_timestamp = now, te_updatedBy = Some (user_id user)\<rparr> doc2
            in (Response 200 True ''Order status updated successfully'',
                save now doc doc3 store))"

section \<open>Status update by admin: PUT /api/admin/orders/:id/status\<close>

text \<open>The router runs \<open>protect\<close> and \<open>authorize('admin')\<close> before every route. The
  validator accepts each of the nine statuses.\<close>

definition adminUpdateOrderStatus ::
  "date \<Rightarrow> req_user \<Rightarrow> object_id \<Rightarrow> order_status \<Rightarrow> string option
     \<Rightarrow> order list \<Rightarrow> response \<times> order list" where
  "adminUpdateOrderStatus now user oid new_status notes store =
     (if \<not> authorize [role_admin] user
      then (Response 403 False ''Not authorized'', store)
      else if new_status \<notin> set [pending, confirmed, preparing, ready_for_pickup,
                     picked_up, on_the_way, delivered, cancelled, refunded]
      then (Response 400 False ''Validation failed'', store)
      else case findById store oid of
        None \<Rightarrow> (Response 404 False ''Order not found'', store)
      | Some doc \<Rightarrow>
          let doc1 = doc\<lparr>status := new_status\<rparr>;
              doc2 = (if truthy notes then doc1\<lparr>restaurantNotes := notes\<rparr> else doc1);
              doc3 = push_timeline
                     \<lparr>te_status = status_name new_status,
                      te_message = ''Order status updated to '' @ status_name new_status
                                     @ '' by admin'',
                      te_timestamp = now, te_updatedBy = Some (user_id user)\<rparr> doc2
          in (Response 200 True ''Order status updated successfully'',
              save now doc doc3 store))"

section \<open>Assign delivery person: PUT /api/orders/:id/assign-delivery\<close>

text \<open>\<open>deliveryTracking\<close> is a nested document that exists only once it has been set;
  assigning to a path of a missing one raises a TypeError, which the handler's
  \<open>catch\<close> answers with status 500 before anything is saved.\<close>

definition assignDelivery ::
  "date \<Rightarrow> req_user \<Rightarrow> object_id \<Rightarrow> order list \<Rightarrow> response \<times> order list" where
  "assignDelivery now user oid store =
     (if \<not> authorize [role_admin, role_delivery] user
      then (Response 403 False ''Not authorized'', store)
      else case findById store oid of
        None \<Rightarrow> (Response 404 False ''Order not found'', store)
      | Some doc \<Rightarrow>
          if orderType doc \<noteq> delivery
          then (Response 400 False ''This is not a delivery order'', store)
          else if status doc \<noteq> ready_for_pickup
          then (Response 400 False ''Order is not ready for pickup'', store)
          else (case deliveryTracking doc of
            None \<Rightarrow> (Response 500 False ''Failed to assign delivery person'', store)
          | Some dt \<Rightarrow>
              let dt1 = dt\<lparr>dt_deliveryPerson := Some (user_id user),
                           dt_status := ''assigned''\<rparr>;
                  doc1 = doc\<lparr>deliveryTracking := Some dt1, status := picked_up\<rparr>;
                  doc2 = doc1\<lparr>deliveryTracking :=
                           Some (dt1\<lparr>dt_estimatedDeliveryTime := Some (now + 20 * 60000)\<rparr>)\<rparr>;
                  doc3 = push_timeline
                         \<lparr>te_status = ''assigned_delivery'',
                          te_message = ''Delivery person assigned'',
                          te_timestamp = now, te_updatedBy = Some (user_id user)\<rparr> doc2
              in (Response 200 True ''Delivery person assigned successfully'',
                  save now doc doc3 store)))"

section \<open>Delivery status: PUT /api/orders/:id/delivery-status\<close>

definition updateDeliveryStatus ::
  "date \<Rightarrow> req_user \<Rightarrow> object_id \<Rightarrow> order_status \<Rightarrow> (number \<times> number) option
     \<Rightarrow> string option \<Rightarrow> string option \<Rightarrow> order list \<Rightarrow> response \<times> order list" where
  "updateDeliveryStatus now user oid new_status location notes deliveryPhoto store =
     (if \<not> authorize [role_delivery] user
      then (Response 403 False ''Not authorized'', store)
      else if new_status \<notin> set [picked_up, on_the_way, delivered]
      then (Response 400 False ''Validation failed'', store)
      else case findById store oid of
        None \<Rightarrow> (Response 404 False ''Order not found'', store)
      | Some doc \<Rightarrow>
          (case deliveryTracking doc of
             None \<Rightarrow> (Response 500 False ''Failed to update delivery status'', store)
           | Some dt \<Rightarrow>
              (case dt_deliveryPerson dt of
                 None \<Rightarrow> (Response 500 False ''Failed to update delivery status'', store)
               | Some person \<Rightarrow>
                  if person \<noteq> user_id user
                  then (Response 403 False ''You are not assigned to this order'', store)
                  else
                    let dt1 = dt\<lparr>dt_status := status_name new_status\<rparr>;
                        dt2 = (case location of
                                 None \<Rightarrow> dt1
                               | Some (lat, lng) \<Rightarrow>
                                   dt1\<lparr>dt_currentLocation := Some (lat, lng, now)\<rparr>);
                        dt3 = (if truthy notes then dt2\<lparr>dt_deliveryNotes := notes\<rparr> else dt2);
                        dt4 = (if truthy deliveryPhoto
                               then dt3\<lparr>dt_deliveryPhoto := deliveryPhoto\<rparr> else dt3);
                        dt5 = (if new_status = delivered
                               then dt4\<lparr>dt_actualDeliveryTime := Some now\<rparr> else dt4);
                        doc1 = doc\<lparr>deliveryTracking := Some dt5, status := new_status\<rparr>;
                        doc2 = (if new_status = delivered
                                then doc1\<lparr>actualDeliveryTime := Some now\<rparr> else doc1);
                        doc3 = push_timeline
                               \<lparr>te_status = status_name new_status,
                                te_message = ''Delivery status: '' @ status_name new_status,
                                te_timestamp = now, te_updatedBy = Some (user_id user)\<rparr> doc2
                    in (Response 200 True ''Delivery status updated successfully'',
                        save now doc doc3 store))))"

section \<open>Payments\<close>

text \<open>The payment processor is outside the program. What a call to it returns is an
  argument of the handler that makes the call.\<close>

datatype intent_status = succeeded | requires_action | other_intent_status

subsection \<open>Confirm payment: POST /api/payments/confirm/:paymentIntentId\<close>

text \<open>\<open>retrieved\<close> is the status of the payment intent that
  \<open>stripe.paymentIntents.retrieve\<close> returned, \<open>None\<close> when it returned nothing.\<close>

definition confirmPayment ::
  "date \<Rightarrow> req_user \<Rightarrow> string \<Rightarrow> intent_status option \<Rightarrow> order list
     \<Rightarrow> response \<times> order list" where
  "confirmPayment now user paymentIntentId retrieved store =
     (case retrieved of
        None \<Rightarrow> (Response 404 False ''Payment intent not found'', store)
      | Some st \<Rightarrow>
         (case findByIntent store paymentIntentId of
            None \<Rightarrow> (Response 404 False ''Order not found'', store)
          | Some doc \<Rightarrow>
              if customer doc \<noteq> user_id user
              then (Response 403 False ''Access denied'', store)
              else
                let doc1 =
                  (if st = succeeded
                   then push_timeline
                          \<lparr>te_status = ''payment_completed'',
                           te_message = ''Payment completed successfully'',
                           te_timestamp = now, te_updatedBy = None\<rparr>
                          (doc\<lparr>order_payment := (order_payment doc)
                                  \<lparr>pay_status := pay_completed, paidAt := Some now\<rparr>,
                               status := confirmed\<rparr>)
                   else if st = requires_action
                   then doc\<lparr>order_payment := (order_payment doc)
                                  \<lparr>pay_status := pay_processing\<rparr>\<rparr>
                   else doc\<lparr>order_payment := (order_payment doc)
                                  \<lparr>pay_status := pay_failed\<rparr>\<rparr>)
                in (Response 200 True ''confirmed'', save now doc doc1 store)))"

subsection \<open>Refund: POST /api/payments/refund\<close>

text \<open>\<open>created\<close> is the result of \<open>stripe.refunds.create\<close>: \<open>None\<close> when the call
  throws (the handler's \<open>catch\<close> answers with status 500), otherwise the amount of the
  refund in cents.\<close>

definition refundOrder ::
  "(number \<Rightarrow> string) \<Rightarrow> date \<Rightarrow> req_user \<Rightarrow> object_id \<Rightarrow> string option \<Rightarrow> nat option
     \<Rightarrow> order list \<Rightarrow> response \<times> order list" where
  "refundOrder toString now user oid reason created store =
     (case findById store oid of
        None \<Rightarrow> (Response 404 False ''Order not found'', store)
      | Some doc \<Rightarrow>
          let canRefund = (customer doc = user_id user \<or> user_role user = role_admin)
          in if \<not> canRefund then (Response 403 False ''Access denied'', store)
             else if pay_status (order_payment doc) \<noteq> pay_completed
             then (Response 400 False ''Cannot refund unpaid order'', store)
             else (case created of
                None \<Rightarrow> (Response 500 False ''Failed to process refund'', store)
              | Some cents \<Rightarrow>
                  let doc1 = doc\<lparr>order_payment := (order_payment doc)
                                 \<lparr>pay_status := pay_refunded, refundedAt := Some now,
                                  refundAmount := Some (ddiv (of_nat cents) 100)\<rparr>,
                               status := refunded, refundReason := reason,
                               refundedBy := Some (user_id user)\<rparr>;
                      doc2 = push_timeline
                             \<lparr>te_status = ''refunded'',
                              te_message = ''Refund processed: $''
                                             @ toString (ddiv (of_nat cents) 100),
                              te_timestamp = now, te_updatedBy = Some (user_id user)\<rparr> doc1
                  in (Response 200 True ''Refund processed successfully'',
                      save now doc doc2 store)))"

subsection \<open>Webhook: POST /api/payments/webhook\<close>

text \<open>The three helper functions of the webhook. Each looks the order up by the stored
  payment-intent id and does nothing when there is none.\<close>

definition handlePaymentSuccess :: "date \<Rightarrow> string \<Rightarrow> string list \<Rightarrow> order list \<Rightarrow> order list" where
  "handlePaymentSuccess now intent_id charges store =
     (case findByIntent store intent_id of
        None \<Rightarrow> store
      | Some doc \<Rightarrow>
          let doc1 = doc\<lparr>order_payment := (order_payment doc)
                         \<lparr>pay_status := pay_completed, paidAt := Some now,
                          stripeChargeId := (case charges of [] \<Rightarrow> None | c # cs \<Rightarrow> Some c)\<rparr>\<rparr>;
              doc2 = (if status doc1 = pending then doc1\<lparr>status := confirmed\<rparr> else doc1)
          in save now doc doc2 store)"

definition handlePaymentFailure :: "date \<Rightarrow> string \<Rightarrow> order list \<Rightarrow> order list" where
  "handlePaymentFailure now intent_id store =
     (case findByIntent store intent_id of
        None \<Rightarrow> store
      | Some doc \<Rightarrow>
          save now doc
            (doc\<lparr>order_payment := (order_payment doc)\<lparr>pay_status := pay_failed\<rparr>,
                 status := cancelled, cancellationReason := Some ''Payment failed''\<rparr>)
            store)"

definition handleRefundCreated :: "date \<Rightarrow> string \<Rightarrow> nat \<Rightarrow> order list \<Rightarrow> order list" where
  "handleRefundCreated now intent_id cents store =
     (case findByIntent store intent_id of
        None \<Rightarrow> store
      | Some doc \<Rightarrow>
          save now doc
            (doc\<lparr>order_payment := (order_payment doc)
                   \<lparr>pay_status := pay_refunded, refundedAt := Some now,
                    refundAmount := Some (ddiv (of_nat cents) 100)\<rparr>,
                 status := refunded\<rparr>)
            store)"

text \<open>The events the webhook distinguishes: a succeeded payment intent with its id and
  the ids of its charges, a failed payment intent, a created refund with the id of its
  payment intent and its amount in cents, and every other event type.\<close>

datatype stripe_event =
  PaymentIntentSucceeded string "string list"
  | PaymentIntentFailed string
  | RefundCreated string nat
  | OtherEvent

text \<open>\<open>verified\<close> is the result of \<open>stripe.webhooks.constructEvent\<close>: \<open>None\<close> when the
  signature check throws.\<close>

definition webhook :: "date \<Rightarrow> stripe_event option \<Rightarrow> order list \<Rightarrow> response \<times> order list" where
  "webhook now verified store =
     (case verified of
        None \<Rightarrow> (Response 400 False ''Webhook Error'', store)
      | Some (PaymentIntentSucceeded pid charges) \<Rightarrow>
          (Response 200 True ''received'', handlePaymentSuccess now pid charges store)
      | Some (PaymentIntentFailed pid) \<Rightarrow>
          (Response 200 True ''received'', handlePaymentFailure now pid store)
      | Some (RefundCreated pid cents) \<Rightarrow>
          (Response 200 True ''received'', handleRefundCreated now pid cents store)
      | Some OtherEvent \<Rightarrow> (Response 200 True ''received'', store))"

section \<open>Opening hours\<close>

text \<open>\<open>toLocaleLowerCase\<close> is a method of strings. A \<open>Date\<close> has no property of that
  name, so the call \<open>now.toLocaleLowerCase()\<close> calls \<open>undefined\<close> and raises a
  TypeError, whatever the date.\<close>

definition Date_toLocaleLowerCase :: "date \<Rightarrow> js_error + string" where
  "Date_toLocaleLowerCase now = Inl TypeError"

text \<open>\<^verbatim>\<open>restaurantSchema.methods.isCurrentlyOpen\<close>. \<open>timeString\<close> is what
  \<open>now.toTimeString()\<close> returns. Strings compare lexicographically by character
  code, as in JavaScript.\<close>

definition startsWith :: "string \<Rightarrow> string \<Rightarrow> bool" where
  "startsWith s p = (take (length p) s = p)"

definition isCurrentlyOpen :: "restaurant_doc \<Rightarrow> date \<Rightarrow> string \<Rightarrow> js_error + bool" where
  "isCurrentlyOpen r now timeString =
     (if \<not> r_isOpen r \<or> \<not> r_isActive r then Inr False
      else case Date_toLocaleLowerCase now of
        Inl e \<Rightarrow> Inl e
      | Inr lower \<Rightarrow>
          let currentDay = take 3 lower;
              currentTime = take 5 timeString
          in (case find (\<lambda>h. startsWith (h_day h) currentDay) (r_operatingHours r) of
                None \<Rightarrow> Inr False
              | Some todayHours \<Rightarrow>
                  if h_isClosed todayHours then Inr False
                  else Inr (h_open todayHours \<le> currentTime \<and> currentTime \<le> h_close todayHours)))"

section \<open>Menu items and prices\<close>

record menu_option =
  opt_name :: string
  opt_price :: number

record customization_config =
  c_name :: string
  c_options :: "menu_option list"

record menu_item =
  m_id :: object_id
  m_name :: string
  m_restaurant :: object_id
  m_price :: number
  m_discountPercentage :: number
  m_customizations :: "customization_config list"
  m_preparationTime :: number
  m_isAvailable :: bool

definition MenuItem_findById :: "menu_item list \<Rightarrow> object_id \<Rightarrow> menu_item option" where
  "MenuItem_findById menu mid = find (\<lambda>m. m_id m = mid) menu"

text \<open>The virtual \<open>discountedPrice\<close>.\<close>

definition discountedPrice :: "menu_item \<Rightarrow> number" where
  "discountedPrice m =
     (if m_discountPercentage m > 0
      then dmul (m_price m) (dsub 1 (ddiv (m_discountPercentage m) 100))
      else m_price m)"

text \<open>A customization as the request sends it.\<close>

record req_customization =
  rc_name :: string
  rc_selectedOptions :: "string list"

text \<open>\<^verbatim>\<open>menuItemSchema.methods.calculatePrice\<close>. The two nested \<open>forEach\<close> loops add to
  the variable \<open>totalPrice\<close>; \<open>add_option\<close> is the body of the inner loop and
  \<open>add_customization\<close> the body of the outer one.\<close>

definition add_option :: "customization_config \<Rightarrow> string \<Rightarrow> number \<Rightarrow> number" where
  "add_option customizationConfig optionName totalPrice =
     (case find (\<lambda>opt. opt_name opt = optionName) (c_options customizationConfig) of
        None \<Rightarrow> totalPrice
      | Some option \<Rightarrow> dadd totalPrice (opt_price option))"

definition add_customization :: "menu_item \<Rightarrow> req_customization \<Rightarrow> number \<Rightarrow> number" where
  "add_customization m customization totalPrice =
     (case find (\<lambda>c. c_name c = rc_name customization) (m_customizations m) of
        None \<Rightarrow> totalPrice
      | Some customizationConfig \<Rightarrow>
          fold (add_option customizationConfig) (rc_selectedOptions customization) totalPrice)"

definition calculatePrice :: "menu_item \<Rightarrow> req_customization list \<Rightarrow> number" where
  "calculatePrice m customizations =
     (let totalPrice = fold (add_customization m) customizations (discountedPrice m)
      in ddiv (of_int (Math_round (dmul totalPrice 100))) 100)"




section \<open>Create order: POST /api/orders\<close>

record req_item =
  ri_menuItem :: object_id
  ri_name :: "string option"
  ri_quantity :: number
  ri_customizations :: "req_customization list option"

record address =
  addr_street :: string
  addr_coordinates :: "(number \<times> number) option"

record order_body =
  b_restaurant :: "object_id option"
  b_items :: "req_item list"
  b_orderType :: "order_type option"
  b_deliveryAddress :: "address option"
  b_promoCode :: "string option"

text \<open>\<open>item.customizations || []\<close> and \<open>item.name || 'unknown'\<close>.\<close>

fun item_customizations :: "req_item \<Rightarrow> req_customization list" where
  "item_customizations item = (case ri_customizations item of None \<Rightarrow> [] | Some cs \<Rightarrow> cs)"

fun name_or_unknown :: "string option \<Rightarrow> string" where
  "name_or_unknown None = ''unknown''"
| "name_or_unknown (Some n) = (if n = [] then ''unknown'' else n)"

text \<open>The loop over \<open>items\<close>. Its state is \<open>subtotal\<close>, \<open>totalPreparationTime\<close> and
  \<open>validatedItems\<close>; a \<open>return\<close> inside the loop ends the request with that response.\<close>

fun validate_items ::
  "object_id \<Rightarrow> menu_item list \<Rightarrow> req_item list \<Rightarrow> number \<times> number \<times> order_item list
     \<Rightarrow> response + number \<times> number \<times> order_item list" where
  "validate_items restaurantId menu [] acc = Inr acc"
| "validate_items restaurantId menu (item # rest) (subtotal, totalPreparationTime, validatedItems) =
     (case MenuItem_findById menu (ri_menuItem item) of
        None \<Rightarrow>
          Inl (Response 400 False
                 (''Menu item '' @ name_or_unknown (ri_name item) @ '' is not available''))
      | Some menuItem \<Rightarrow>
          if \<not> m_isAvailable menuItem
          then Inl (Response 400 False
                 (''Menu item '' @ name_or_unknown (ri_name item) @ '' is not available''))
          else if m_restaurant menuItem \<noteq> restaurantId
          then Inl (Response 400 False
                 (''Menu item '' @ m_name menuItem @ '' does not belong to this restaurant''))
          else
            let itemPrice = calculatePrice menuItem (item_customizations item);
                itemSubtotal = dmul itemPrice (ri_quantity item)
            in validate_items restaurantId menu rest
                 (dadd subtotal itemSubtotal,
                  max totalPreparationTime (m_preparationTime menuItem),
                  validatedItems @
                    [\<lparr>oi_menuItem = m_id menuItem, oi_name = m_name menuItem,
                      oi_price = itemPrice, oi_quantity = ri_quantity item,
                      oi_subtotal = itemSubtotal\<rparr>]))"

text \<open>The pricing block: 8% tax, the restaurant's fee for a delivery, 2% service fee,
  and the discount of the promo code \<open>WELCOME10\<close>; the literals \<open>0.08\<close>, \<open>0.02\<close> and
  \<open>0.1\<close> are doubles, and the total is summed from left to right.\<close>

definition compute_pricing ::
  "restaurant_doc \<Rightarrow> order_type \<Rightarrow> string option \<Rightarrow> number \<Rightarrow> pricing" where
  "compute_pricing r otype promoCode subtotal =
     (let tax = dmul subtotal (to_double (8 / 100));
          deliveryFee = (if otype = delivery then r_deliveryFee r else 0);
          serviceFee = dmul subtotal (to_double (2 / 100));
          discount = (if promoCode = Some ''WELCOME10''
                      then dmul subtotal (to_double (1 / 10)) else 0);
          total = dsub (dadd (dadd (dadd subtotal tax) deliveryFee) serviceFee) discount
      in \<lparr>pr_subtotal = subtotal, pr_tax = tax, pr_deliveryFee = deliveryFee,
          pr_serviceFee = serviceFee, pr_discount = discount, pr_total = total\<rparr>)"

text \<open>\<^verbatim>\<open>orderSchema.methods.calculateEstimatedDeliveryTime\<close>; a preparation time of
  \<open>0\<close> is falsy and replaced by 30.\<close>

definition calculateEstimatedDeliveryTime :: "date \<Rightarrow> number \<Rightarrow> order_type \<Rightarrow> date" where
  "calculateEstimatedDeliveryTime now prep otype =
     (let preparationTime = (if prep = 0 then 30 else prep);
          deliveryTime = (if otype = delivery then 20 else 0)
      in nat \<lfloor>dadd (of_nat now) (dmul (dadd preparationTime deliveryTime) 60000)\<rfloor>)"

text \<open>\<^verbatim>\<open>restaurantSchema.methods.deliversTo\<close>. The great-circle distance of
  \<open>distanceFrom\<close> is computed with trigonometric functions on doubles and is taken as
  the argument \<open>distanceFrom\<close>.\<close>

definition deliversTo ::
  "(restaurant_doc \<Rightarrow> number \<Rightarrow> number \<Rightarrow> number) \<Rightarrow> restaurant_doc \<Rightarrow> number \<Rightarrow> number \<Rightarrow> bool" where
  "deliversTo distanceFrom r lat lng = (distanceFrom r lat lng \<le> r_deliveryRadius r)"

text \<open>The check of the delivery address of a delivery order: the response that ends
  the request, or \<open>None\<close> when the handler goes on.\<close>

definition check_delivery_address ::
  "(restaurant_doc \<Rightarrow> number \<Rightarrow> number \<Rightarrow> number) \<Rightarrow> restaurant_doc \<Rightarrow> order_type
     \<Rightarrow> order_body \<Rightarrow> response option" where
  "check_delivery_address distanceFrom r otype body =
     (if otype = delivery
      then (case b_deliveryAddress body of
              None \<Rightarrow> Some (Response 400 False
                               ''Valid delivery address with coordinates is required'')
            | Some a \<Rightarrow>
               (case addr_coordinates a of
                  None \<Rightarrow> Some (Response 400 False
                                   ''Valid delivery address with coordinates is required'')
                | Some (lat, lng) \<Rightarrow>
                    if \<not> deliversTo distanceFrom r lat lng
                    then Some (Response 400 False
                                 ''Restaurant does not deliver to this location'')
                    else None))
      else None)"

text \<open>
  \<open>save()\<close> of a new document. The validation of the document mapper is the first
  pre-save hook, so it runs before the hooks of the schema: a document that fails it is
  not written and \<open>save\<close> throws. The schema requires \<open>orderNumber\<close> (a required string
  must be present and not empty) and a quantity of at least 1 in every item. Only for a
  valid document do the hooks of the schema run: the first gives the new document its
  order number, \<open>FH\<close> followed by the last six characters of the time and by the number of
  stored orders plus one, padded to three digits; the timeline hook does nothing for a
  new document.
\<close>

definition validate_order :: "order \<Rightarrow> bool" where
  "validate_order doc = (truthy (orderNumber doc) \<and> list_all (\<lambda>i. 1 \<le> oi_quantity i) (items doc))"

definition slice_last :: "nat \<Rightarrow> string \<Rightarrow> string" where
  "slice_last n s = drop (length s - n) s"

definition padStart :: "nat \<Rightarrow> char \<Rightarrow> string \<Rightarrow> string" where
  "padStart n c s = replicate (n - length s) c @ s"

definition generate_orderNumber :: "(number \<Rightarrow> string) \<Rightarrow> date \<Rightarrow> nat \<Rightarrow> string" where
  "generate_orderNumber toString now count =
     ''FH'' @ slice_last 6 (toString (of_nat now))
       @ padStart 3 (CHR ''0'') (toString (dadd (of_nat count) 1))"

definition save_new ::
  "(number \<Rightarrow> string) \<Rightarrow> date \<Rightarrow> order \<Rightarrow> order list \<Rightarrow> js_error + order list" where
  "save_new toString now doc store =
     (if \<not> validate_order doc then Inl ValidationError
      else Inr (store @
             [doc\<lparr>orderNumber := Some (generate_orderNumber toString now (length store))\<rparr>]))"

text \<open>The handler from the check of the delivery address on (the part after the two
  restaurant gates): address and radius, the loop over the items, the minimum order,
  the pricing, and the new document with its \<open>save\<close>. The handler gives the new document
  no order number. \<open>new_id\<close> is the id the document mapper generates.\<close>

definition placeOrder ::
  "(number \<Rightarrow> string) \<Rightarrow> (restaurant_doc \<Rightarrow> number \<Rightarrow> number \<Rightarrow> number) \<Rightarrow> date \<Rightarrow> req_user
     \<Rightarrow> object_id \<Rightarrow> restaurant_doc \<Rightarrow> menu_item list \<Rightarrow> order_type \<Rightarrow> order_body
     \<Rightarrow> order list \<Rightarrow> response \<times> order list" where
  "placeOrder toString distanceFrom now user new_id r menu otype body store =
     (case check_delivery_address distanceFrom r otype body of
        Some resp \<Rightarrow> (resp, store)
      | None \<Rightarrow>
       (case validate_items (r_id r) menu (b_items body) (0, 0, []) of
        Inl resp \<Rightarrow> (resp, store)
      | Inr (subtotal, totalPreparationTime, validatedItems) \<Rightarrow>
          if subtotal < r_minimumOrder r
          then (Response 400 False
                  (''Minimum order amount is $'' @ toString (r_minimumOrder r)), store)
          else
            let doc = \<lparr>order_id = new_id, orderNumber = None, customer = user_id user,
                       restaurant = r_id r,
                       items = validatedItems, status = pending, orderType = otype,
                       order_pricing = compute_pricing r otype (b_promoCode body) subtotal,
                       order_payment = \<lparr>pay_status = pay_pending, stripePaymentIntentId = None,
                          stripeChargeId = None, paidAt = None, refundedAt = None,
                          refundAmount = None\<rparr>,
                       deliveryTracking = None, timeline = [],
                       estimatedPreparationTime = totalPreparationTime,
                       estimatedDeliveryTime =
                         Some (calculateEstimatedDeliveryTime now totalPreparationTime otype),
                       actualDeliveryTime = None, restaurantNotes = None,
                       cancellationReason = None, cancelledBy = None, cancelledAt = None,
                       refundReason = None, refundedBy = None\<rparr>
            in (case save_new toString now doc store of
                  Inl e \<Rightarrow> (Response 500 False ''Failed to create order'', store)
                | Inr store' \<Rightarrow> (Response 201 True ''Order created successfully'', store'))))"

text \<open>The whole handler: the validators of the route, the lookup of the restaurant,
  the check that it is open, then \<open>placeOrder\<close>. An exception anywhere is caught and
  answered with status 500.\<close>

definition createOrder ::
  "(number \<Rightarrow> string) \<Rightarrow> (restaurant_doc \<Rightarrow> number \<Rightarrow> number \<Rightarrow> number) \<Rightarrow> date \<Rightarrow> string
     \<Rightarrow> req_user \<Rightarrow> object_id \<Rightarrow> restaurant_doc list \<Rightarrow> menu_item list \<Rightarrow> order_body
     \<Rightarrow> order list \<Rightarrow> response \<times> order list" where
  "createOrder toString distanceFrom now timeString user new_id rs menu body store =
     (case (b_restaurant body, b_orderType body) of
        (Some restaurantId, Some otype) \<Rightarrow>
          if b_items body = [] \<or> (otype = delivery \<and> b_deliveryAddress body = None)
          then (Response 400 False ''Validation failed'', store)
          else (case Restaurant_findById rs restaurantId of
             None \<Rightarrow> (Response 404 False ''Restaurant not found or inactive'', store)
           | Some r \<Rightarrow>
               if \<not> r_isActive r
               then (Response 404 False ''Restaurant not found or inactive'', store)
               else (case isCurrentlyOpen r now timeString of
                  Inl e \<Rightarrow> (Response 500 False ''Failed to create order'', store)
                | Inr is_open \<Rightarrow>
                    if \<not> is_open
                    then (Response 400 False ''Restaurant is currently closed'', store)
                    else placeOrder toString distanceFrom now user new_id r menu otype body
                           store))
      | _ \<Rightarrow> (Response 400 False ''Validation failed'', store))"

section \<open>Progress of an order\<close>

text \<open>\<^verbatim>\<open>orderSchema.methods.getProgressPercentage\<close>: the table \<open>statusProgress\<close>.\<close>

fun getProgressPercentage :: "order_status \<Rightarrow> nat" where
  "getProgressPercentage pending = 10"
| "getProgressPercentage confirmed = 25"
| "getProgressPercentage preparing = 50"
| "getProgressPercentage ready_for_pickup = 75"
| "getProgressPercentage picked_up = 85"
| "getProgressPercentage on_the_way = 95"
| "getProgressPercentage delivered = 100"
| "getProgressPercentage cancelled = 0"
| "getProgressPercentage refunded = 0"

section \<open>Sample data\<close>

text \<open>A customer, an admin and a courier; an order of the customer with the stored
  payment intent \<open>pi_1\<close>; a restaurant that is active and open every day from 00:00 to
  23:59 with a minimum order of 15 and a delivery fee of 3; its menu: a pizza for 20
  at 25% off with sizes and toppings, a salad for 9.99 at 15% off, a soup for 8.29 at
  50% off, bread for 1.10, pasta for 11.95 and tea for 1.95.\<close>

definition sample_customer :: req_user where
  "sample_customer = \<lparr>user_id = 10, user_role = role_customer, user_restaurantId = None\<rparr>"

definition sample_admin :: req_user where
  "sample_admin = \<lparr>user_id = 11, user_role = role_admin, user_restaurantId = None\<rparr>"

definition sample_courier :: req_user where
  "sample_courier = \<lparr>user_id = 12, user_role = role_delivery, user_restaurantId = None\<rparr>"

definition sample_tracking :: delivery_tracking where
  "sample_tracking =
     \<lparr>dt_status = ''assigned'', dt_deliveryPerson = Some 12, dt_estimatedDeliveryTime = None,
      dt_actualDeliveryTime = None, dt_currentLocation = None, dt_deliveryNotes = None,
      dt_deliveryPhoto = None\<rparr>"

definition sample_order :: "order_status \<Rightarrow> payment_status \<Rightarrow> order" where
  "sample_order st pst =
     \<lparr>order_id = 1, orderNumber = Some ''FH000001001'', customer = 10, restaurant = 20,
      items = [], status = st,
      orderType = delivery,
      order_pricing = \<lparr>pr_subtotal = 20, pr_tax = to_double (8 / 5), pr_deliveryFee = 3,
         pr_serviceFee = to_double (2 / 5), pr_discount = 0, pr_total = 25\<rparr>,
      order_payment = \<lparr>pay_status = pst, stripePaymentIntentId = Some ''pi_1'',
         stripeChargeId = None, paidAt = None, refundedAt = None, refundAmount = None\<rparr>,
      deliveryTracking = Some sample_tracking, timeline = [],
      estimatedPreparationTime = 15, estimatedDeliveryTime = None,
      actualDeliveryTime = None, restaurantNotes = None, cancellationReason = None,
      cancelledBy = None, cancelledAt = None, refundReason = None, refundedBy = None\<rparr>"

definition all_week :: "hours list" where
  "all_week = map (\<lambda>d. \<lparr>h_day = d, h_open = ''00:00'', h_close = ''23:59'', h_isClosed = False\<rparr>)
     [''monday'', ''tuesday'', ''wednesday'', ''thursday'', ''friday'', ''saturday'', ''sunday'']"

definition sample_restaurant :: restaurant_doc where
  "sample_restaurant =
     \<lparr>r_id = 20, r_owner = 13, r_isActive = True, r_isOpen = True,
      r_operatingHours = all_week, r_deliveryFee = 3, r_minimumOrder = 15,
      r_deliveryRadius = 5, r_lat = 0, r_lng = 0\<rparr>"

definition sample_menu :: "menu_item list" where
  "sample_menu =
     [\<lparr>m_id = 100, m_name = ''Pizza'', m_restaurant = 20, m_price = 20,
       m_discountPercentage = 25,
       m_customizations =
         [\<lparr>c_name = ''Size'',
           c_options = [\<lparr>opt_name = ''Large'', opt_price = 3\<rparr>,
                        \<lparr>opt_name = ''Small'', opt_price = 0\<rparr>]\<rparr>,
          \<lparr>c_name = ''Toppings'',
           c_options = [\<lparr>opt_name = ''Olives'', opt_price = 1 / 2\<rparr>,
                        \<lparr>opt_name = ''Ham'', opt_price = 3 / 2\<rparr>]\<rparr>],
       m_preparationTime = 15, m_isAvailable = True\<rparr>,
      \<lparr>m_id = 101, m_name = ''Salad'', m_restaurant = 20, m_price = to_double (999 / 100),
       m_discountPercentage = 15, m_customizations = [],
       m_preparationTime = 5, m_isAvailable = True\<rparr>,
      \<lparr>m_id = 102, m_name = ''Soup'', m_restaurant = 20, m_price = to_double (829 / 100),
       m_discountPercentage = 50, m_customizations = [],
       m_preparationTime = 5, m_isAvailable = True\<rparr>,
      \<lparr>m_id = 103, m_name = ''Bread'', m_restaurant = 20, m_price = to_double (11 / 10),
       m_discountPercentage = 0, m_customizations = [],
       m_preparationTime = 1, m_isAvailable = True\<rparr>,
      \<lparr>m_id = 104, m_name = ''Pasta'', m_restaurant = 20, m_price = to_double (1195 / 100),
       m_discountPercentage = 0, m_customizations = [],
       m_preparationTime = 10, m_isAvailable = True\<rparr>,
      \<lparr>m_id = 105, m_name = ''Tea'', m_restaurant = 20, m_price = to_double (195 / 100),
       m_discountPercentage = 0, m_customizations = [],
       m_preparationTime = 2, m_isAvailable = True\<rparr>]"

definition sample_item :: "object_id \<Rightarrow> number \<Rightarrow> req_customization list \<Rightarrow> req_item" where
  "sample_item mid qty cs =
     \<lparr>ri_menuItem = mid, ri_name = None, ri_quantity = qty, ri_customizations = Some cs\<rparr>"

definition sample_body :: "order_type \<Rightarrow> req_item list \<Rightarrow> order_body" where
  "sample_body otype its =
     \<lparr>b_restaurant = Some 20, b_items = its, b_orderType = Some otype,
      b_deliveryAddress = Some \<lparr>addr_street = ''1 Main St'', addr_coordinates = Some (0, 0)\<rparr>,
      b_promoCode = None\<rparr>"

definition sample_cart :: "req_item list" where
  "sample_cart =
     [sample_item 100 2
        [\<lparr>rc_name = ''Size'', rc_selectedOptions = [''Large'']\<rparr>,
         \<lparr>rc_name = ''Toppings'', rc_selectedOptions = [''Ham'', ''Olives'', ''Anchovies'']\<rparr>],
      sample_item 101 1 []]"

definition sample_pizza :: "req_item list" where
  "sample_pizza =
     [sample_item 100 1
        [\<lparr>rc_name = ''Size'', rc_selectedOptions = [''Large'']\<rparr>,
         \<lparr>rc_name = ''Toppings'', rc_selectedOptions = [''Ham'', ''Olives'']\<rparr>]]"

definition sample_plain_pizza :: "req_item list" where
  "sample_plain_pizza = [sample_item 100 1 []]"

definition sample_three :: "req_item list" where
  "sample_three = [sample_item 103 1 [], sample_item 104 1 [], sample_item 105 1 []]"

text \<open>The distance of every address is 0 in the samples, and a Number is rendered as
  the empty string.\<close>

definition sample_distance :: "restaurant_doc \<Rightarrow> number \<Rightarrow> number \<Rightarrow> number" where
  "sample_distance r lat lng = 0"

definition sample_toString :: "number \<Rightarrow> string" where
  "sample_toString x = []"

section \<open>What a line of an order must be\<close>



section \<open>Facts about the collection\<close>

lemma find_write_back:
  "find P store = Some d \<Longrightarrow> order_id e = order_id d \<Longrightarrow> P e \<Longrightarrow>
   find P (write_back e store) = Some e"
  by (induction store) (auto split: if_splits)

lemma write_back_twice:
  "order_id e' = order_id e \<Longrightarrow> write_back e' (write_back e store) = write_back e' store"
  by (induction store) auto

lemma map_write_back_cong:
  "f e = f e' \<Longrightarrow> order_id e = order_id e' \<Longrightarrow>
   map f (write_back e store) = map f (write_back e' store)"
  by (induction store) auto

lemma timeline_hook_fields [simp]:
  "order_id (timeline_hook now loaded doc) = order_id doc"
  "status (timeline_hook now loaded doc) = status doc"
  "order_payment (timeline_hook now loaded doc) = order_payment doc"
  "cancellationReason (timeline_hook now loaded doc) = cancellationReason doc"
  "cancelledBy (timeline_hook now loaded doc) = cancelledBy doc"
  "cancelledAt (timeline_hook now loaded doc) = cancelledAt doc"
  by (simp_all add: timeline_hook_def)

lemma push_timeline_fields [simp]:
  "order_id (push_timeline e doc) = order_id doc"
  "status (push_timeline e doc) = status doc"
  "order_payment (push_timeline e doc) = order_payment doc"
  "cancellationReason (push_timeline e doc) = cancellationReason doc"
  "cancelledBy (push_timeline e doc) = cancelledBy doc"
  "cancelledAt (push_timeline e doc) = cancelledAt doc"
  by (simp_all add: push_timeline_def)

lemma findById_id: "findById store oid = Some d \<Longrightarrow> order_id d = oid"
  unfolding findById_def by (induction store) (auto split: if_splits)

lemma findById_save:
  "findById store oid = Some d \<Longrightarrow> order_id e = order_id d \<Longrightarrow>
   findById (save now d e store) oid = Some (timeline_hook now d e)"
  unfolding findById_def save_def
  by (frule findById_id[unfolded findById_def]) (simp add: find_write_back)

lemmas sample_defs =
  sample_customer_def sample_admin_def sample_courier_def sample_tracking_def
  sample_order_def sample_restaurant_def all_week_def sample_menu_def sample_item_def
  sample_body_def sample_cart_def sample_pizza_def sample_distance_def
  sample_plain_pizza_def sample_three_def sample_toString_def

lemmas store_defs =
  findById_def findByIntent_def save_def timeline_hook_def isModified_status_def
  push_timeline_def authorize_def canBeCancelled_def nonCancellableStatuses_def

section \<open>Cancellation\<close>

text \<open>
  C7. \<open>canBeCancelled\<close> is false exactly for the statuses picked_up, on_the_way,
  delivered, cancelled and refunded. For an order in the collection, a cancel request
  that succeeds was made on an order that can be cancelled, and the stored order then
  has status cancelled and carries the reason, the acting user and the time of the
  request; on an order that cannot be cancelled the request is rejected and the
  collection stays as it was.
\<close>

theorem canBeCancelled_guards_cancel:
  "(canBeCancelled d \<longleftrightarrow>
      status d \<notin> {picked_up, on_the_way, delivered, cancelled, refunded}) \<and>
   (findById store oid = Some doc \<longrightarrow>
      (resp_success (fst (cancelOrder now user oid reason store)) \<longrightarrow>
         canBeCancelled doc \<and>
         (\<exists>doc'. findById (snd (cancelOrder now user oid reason store)) oid = Some doc' \<and>
            status doc' = cancelled \<and> cancellationReason doc' = Some reason \<and>
            cancelledBy doc' = Some (user_id user) \<and> cancelledAt doc' = Some now)) \<and>
      (\<not> canBeCancelled doc \<longrightarrow>
         \<not> resp_success (fst (cancelOrder now user oid reason store)) \<and>
         snd (cancelOrder now user oid reason store) = store))"
proof (intro conjI impI)
  show "canBeCancelled d \<longleftrightarrow>
      status d \<notin> {picked_up, on_the_way, delivered, cancelled, refunded}"
    by (simp add: canBeCancelled_def nonCancellableStatuses_def)
next
  assume f: "findById store oid = Some doc"
    and ok: "resp_success (fst (cancelOrder now user oid reason store))"
  from f ok show "canBeCancelled doc"
    by (auto simp: cancelOrder_def Let_def split: if_splits)
  from f ok show "\<exists>doc'. findById (snd (cancelOrder now user oid reason store)) oid = Some doc' \<and>
            status doc' = cancelled \<and> cancellationReason doc' = Some reason \<and>
            cancelledBy doc' = Some (user_id user) \<and> cancelledAt doc' = Some now"
    by (auto simp: cancelOrder_def Let_def findById_save split: if_splits)
next
  assume f: "findById store oid = Some doc" and n: "\<not> canBeCancelled doc"
  then show "\<not> resp_success (fst (cancelOrder now user oid reason store))"
    by (auto simp: cancelOrder_def Let_def split: if_splits)
  from f n show "snd (cancelOrder now user oid reason store) = store"
    by (auto simp: cancelOrder_def Let_def split: if_splits)
qed

text \<open>The customer cancels a pending order, and fails to cancel a delivered one.\<close>

theorem canBeCancelled_guards_cancel_witness:
  "findById [sample_order pending pay_pending] 1 = Some (sample_order pending pay_pending) \<and>
   resp_success (fst (cancelOrder 7 sample_customer 1 ''late'' [sample_order pending pay_pending])) \<and>
   canBeCancelled (sample_order pending pay_pending) \<and>
   map status (snd (cancelOrder 7 sample_customer 1 ''late'' [sample_order pending pay_pending]))
     = [cancelled] \<and>
   findById [sample_order delivered pay_completed] 1 = Some (sample_order delivered pay_completed) \<and>
   \<not> canBeCancelled (sample_order delivered pay_completed) \<and>
   \<not> resp_success (fst (cancelOrder 7 sample_customer 1 ''late''
        [sample_order delivered pay_completed])) \<and>
   snd (cancelOrder 7 sample_customer 1 ''late'' [sample_order delivered pay_completed])
     = [sample_order delivered pay_completed]"
proof -
  have f1: "findById [sample_order pending pay_pending] 1 = Some (sample_order pending pay_pending)"
    by (simp add: findById_def sample_order_def)
  have ok: "resp_success (fst (cancelOrder 7 sample_customer 1 ''late''
              [sample_order pending pay_pending]))"
    by (simp add: cancelOrder_def store_defs sample_defs Let_def)
  have st: "map status (snd (cancelOrder 7 sample_customer 1 ''late''
              [sample_order pending pay_pending])) = [cancelled]"
    by (simp add: cancelOrder_def store_defs sample_defs Let_def)
  have f2: "findById [sample_order delivered pay_completed] 1
              = Some (sample_order delivered pay_completed)"
    by (simp add: findById_def sample_order_def)
  have n: "\<not> canBeCancelled (sample_order delivered pay_completed)"
    by (simp add: store_defs sample_defs)
  from canBeCancelled_guards_cancel
         [of "sample_order pending pay_pending" "[sample_order pending pay_pending]" 1
             "sample_order pending pay_pending" 7 sample_customer "''late''"] f1 ok
  have c: "canBeCancelled (sample_order pending pay_pending)" by blast
  from canBeCancelled_guards_cancel
         [of "sample_order delivered pay_completed" "[sample_order delivered pay_completed]" 1
             "sample_order delivered pay_completed" 7 sample_customer "''late''"] f2 n
  have r: "\<not> resp_success (fst (cancelOrder 7 sample_customer 1 ''late''
              [sample_order delivered pay_completed])) \<and>
           snd (cancelOrder 7 sample_customer 1 ''late'' [sample_order delivered pay_completed])
             = [sample_order delivered pay_completed]" by blast
  from f1 ok c st f2 n r show ?thesis by blast
qed

text \<open>
  C10. A cancel request that is rejected, for whatever reason (the reason is missing,
  the order is not found, the caller may not cancel it, or the order cannot be cancelled
  any more), leaves the collection exactly as it was: no field of any order changes.
\<close>

theorem cancel_rejection_leaves_store:
  "\<not> resp_success (fst (cancelOrder now user oid reason store)) \<Longrightarrow>
   snd (cancelOrder now user oid reason store) = store"
  by (auto simp: cancelOrder_def Let_def split: if_splits option.splits)

text \<open>The courier, who is neither the customer nor an admin, is refused.\<close>

theorem cancel_rejection_leaves_store_witness:
  "\<not> resp_success (fst (cancelOrder 7 sample_courier 1 ''late'' [sample_order pending pay_pending])) \<and>
   snd (cancelOrder 7 sample_courier 1 ''late'' [sample_order pending pay_pending])
     = [sample_order pending pay_pending]"
proof -
  have n: "\<not> resp_success (fst (cancelOrder 7 sample_courier 1 ''late''
             [sample_order pending pay_pending]))"
    by (simp add: cancelOrder_def store_defs sample_defs Let_def)
  from cancel_rejection_leaves_store [OF n] n show ?thesis by blast
qed

section \<open>Replayed payment webhooks\<close>

text \<open>
  C8. Handling the same payment_intent.succeeded event a second time leaves the status
  and the payment status of every order as they were after the first time.
\<close>

theorem handlePaymentSuccess_twice:
  "map (\<lambda>d. (status d, pay_status (order_payment d)))
     (handlePaymentSuccess t2 pid charges (handlePaymentSuccess t1 pid charges store)) =
   map (\<lambda>d. (status d, pay_status (order_payment d)))
     (handlePaymentSuccess t1 pid charges store)"
proof (cases "findByIntent store pid")
  case None
  then show ?thesis by (simp add: handlePaymentSuccess_def)
next
  case (Some d)
  define e where "e = timeline_hook t1 d
     (let doc1 = d\<lparr>order_payment := (order_payment d)
                         \<lparr>pay_status := pay_completed, paidAt := Some t1,
                          stripeChargeId := (case charges of [] \<Rightarrow> None | c # cs \<Rightarrow> Some c)\<rparr>\<rparr>
      in (if status doc1 = pending then doc1\<lparr>status := confirmed\<rparr> else doc1))"
  have s1: "handlePaymentSuccess t1 pid charges store = write_back e store"
    using Some by (simp add: handlePaymentSuccess_def e_def save_def Let_def)
  have ide: "order_id e = order_id d" by (simp add: e_def Let_def)
  have inte: "stripePaymentIntentId (order_payment e) = Some pid"
    using Some unfolding findByIntent_def e_def
    by (auto simp: Let_def dest: find_Some_iff[THEN iffD1])
  have f2: "findByIntent (write_back e store) pid = Some e"
    using Some ide inte unfolding findByIntent_def
    by (intro find_write_back) auto
  define e' where "e' = timeline_hook t2 e
     (let doc1 = e\<lparr>order_payment := (order_payment e)
                         \<lparr>pay_status := pay_completed, paidAt := Some t2,
                          stripeChargeId := (case charges of [] \<Rightarrow> None | c # cs \<Rightarrow> Some c)\<rparr>\<rparr>
      in (if status doc1 = pending then doc1\<lparr>status := confirmed\<rparr> else doc1))"
  have s2: "handlePaymentSuccess t2 pid charges (write_back e store)
              = write_back e' (write_back e store)"
    using f2 by (simp add: handlePaymentSuccess_def e'_def save_def Let_def)
  have ide': "order_id e' = order_id e" by (simp add: e'_def Let_def)
  have "status e \<noteq> pending" by (simp add: e_def Let_def)
  moreover have "pay_status (order_payment e) = pay_completed" by (simp add: e_def Let_def)
  ultimately have sp: "(\<lambda>d. (status d, pay_status (order_payment d))) e' =
     (\<lambda>d. (status d, pay_status (order_payment d))) e"
    by (simp add: e'_def Let_def)
  show ?thesis
    unfolding s1 s2 write_back_twice[OF ide']
    by (rule map_write_back_cong[OF sp ide'])
qed

text \<open>The event for \<open>pi_1\<close> arrives twice for a pending order: confirmed and completed
  after the first delivery, and the same after the second.\<close>

theorem handlePaymentSuccess_twice_witness:
  "map (\<lambda>d. (status d, pay_status (order_payment d)))
     (handlePaymentSuccess 9 ''pi_1'' [''ch_1'']
        (handlePaymentSuccess 8 ''pi_1'' [''ch_1''] [sample_order pending pay_processing]))
   = [(confirmed, pay_completed)]"
proof -
  have "map (\<lambda>d. (status d, pay_status (order_payment d)))
          (handlePaymentSuccess 8 ''pi_1'' [''ch_1''] [sample_order pending pay_processing])
        = [(confirmed, pay_completed)]"
    by (simp add: handlePaymentSuccess_def store_defs sample_defs Let_def)
  with handlePaymentSuccess_twice
         [of 9 "''pi_1''" "[''ch_1'']" 8 "[sample_order pending pay_processing]"]
  show ?thesis by simp
qed

section \<open>Facts about doubles\<close>

lemma pow2_pos: "0 < pow2 e" by (simp add: pow2_def)

lemma pow2_powi: "pow2 e = 2 powi e"
  by (simp add: pow2_def power_int_def field_simps)

lemma pow2_add: "pow2 (a + b) = pow2 a * pow2 b"
  by (simp add: pow2_powi power_int_add)

lemma pow2_nat: "0 \<le> e \<Longrightarrow> pow2 e = 2 ^ nat e" by (simp add: pow2_def)

lemma bitlen_pos: "0 < p \<Longrightarrow> 1 \<le> bitlen p"
  using bitlen_eq_zero_iff [of p] bitlen_nonneg [of p] by linarith

lemma bitlen_rat_bounds:
  assumes "0 < p"
  shows "pow2 (bitlen p - 1) \<le> of_int p" and "of_int p < pow2 (bitlen p)"
proof -
  from bitlen_bounds [OF assms] have l: "2 ^ nat (bitlen p - 1) \<le> p" and u: "p < 2 ^ nat (bitlen p)"
    by simp_all
  have "(of_int (2 ^ nat (bitlen p - 1)) :: rat) \<le> of_int p" using l by (rule of_int_le_iff [THEN iffD2])
  then show "pow2 (bitlen p - 1) \<le> of_int p"
    using bitlen_pos [OF assms] by (simp add: pow2_nat)
  have "(of_int p :: rat) < of_int (2 ^ nat (bitlen p))" using u by (rule of_int_less_iff [THEN iffD2])
  then show "of_int p < pow2 (bitlen p)"
    using bitlen_nonneg [of p] by (simp add: pow2_nat)
qed

lemma quotient_of_abs_pos:
  assumes "x \<noteq> 0" and "quotient_of \<bar>x\<bar> = (p, q)"
  shows "0 < p" and "0 < q" and "\<bar>x\<bar> = of_int p / of_int q"
proof -
  show q: "0 < q" using quotient_of_denom_pos [OF assms(2)] .
  show x: "\<bar>x\<bar> = of_int p / of_int q" using quotient_of_div [OF assms(2)] .
  have "0 < \<bar>x\<bar>" using assms(1) by simp
  then have "0 < (of_int p :: rat) / of_int q" by (simp only: x)
  then have "0 < (of_int p :: rat)" using q by (simp add: zero_less_divide_iff)
  then show "0 < p" by simp
qed

text \<open>\<open>binade\<close> computes the exponent of its argument.\<close>

lemma binade_bounds:
  assumes "x \<noteq> 0"
  shows "pow2 (binade x) \<le> \<bar>x\<bar> \<and> \<bar>x\<bar> < pow2 (binade x + 1)"
proof -
  obtain p q where pq: "quotient_of \<bar>x\<bar> = (p, q)" by (cases "quotient_of \<bar>x\<bar>")
  note p = quotient_of_abs_pos(1) [OF assms pq]
  note q = quotient_of_abs_pos(2) [OF assms pq]
  note x = quotient_of_abs_pos(3) [OF assms pq]
  define a where "a = bitlen p"
  define b where "b = bitlen q"
  note pa = bitlen_rat_bounds [OF p, folded a_def]
  note qb = bitlen_rat_bounds [OF q, folded b_def]
  have qr: "0 < (of_int q :: rat)" using q by simp
  have upper: "\<bar>x\<bar> < pow2 (a - b + 1)"
  proof -
    have e: "pow2 a = pow2 (a - b + 1) * pow2 (b - 1)"
      using pow2_add [of "a - b + 1" "b - 1"] by simp
    have "pow2 (a - b + 1) * pow2 (b - 1) \<le> pow2 (a - b + 1) * of_int q"
      using qb(1) pow2_pos [of "a - b + 1"] by (rule mult_left_mono [OF _ less_imp_le])
    with pa(2) e have "of_int p < pow2 (a - b + 1) * of_int q" by linarith
    then show ?thesis unfolding x using qr by (simp only: pos_divide_less_eq)
  qed
  have lower: "pow2 (a - b - 1) \<le> \<bar>x\<bar>"
  proof -
    have e: "pow2 (a - b - 1) * pow2 b = pow2 (a - 1)"
      using pow2_add [of "a - b - 1" b] by simp
    have "pow2 (a - b - 1) * of_int q \<le> pow2 (a - b - 1) * pow2 b"
      using less_imp_le [OF qb(2)] pow2_pos [of "a - b - 1"]
      by (rule mult_left_mono [OF _ less_imp_le])
    with pa(1) e have "pow2 (a - b - 1) * of_int q \<le> of_int p" by linarith
    then show ?thesis unfolding x using qr by (simp only: pos_le_divide_eq)
  qed
  have k: "binade x = (if pow2 (a - b) \<le> \<bar>x\<bar> then a - b else a - b - 1)"
    by (simp add: binade_def pq a_def b_def)
  show ?thesis
  proof (cases "pow2 (a - b) \<le> \<bar>x\<bar>")
    case True
    with upper k show ?thesis by simp
  next
    case False
    then have b1: "binade x = a - b - 1" using k by simp
    then have b2: "binade x + 1 = a - b" by simp
    from lower False show ?thesis unfolding b2 unfolding b1 by simp
  qed
qed

lemma round_half_even_close: "\<bar>of_int (round_half_even y) - y\<bar> \<le> 1 / 2"
proof -
  define f where "f = \<lfloor>y\<rfloor>"
  have a: "of_int f \<le> y" and b: "y < of_int f + 1" unfolding f_def by linarith+
  have "round_half_even y = f \<and> y - of_int f \<le> 1 / 2 \<or>
        round_half_even y = f + 1 \<and> 1 / 2 \<le> y - of_int f"
    unfolding round_half_even_def f_def [symmetric] Let_def by auto
  then show ?thesis
  proof
    assume "round_half_even y = f \<and> y - of_int f \<le> 1 / 2"
    with a show ?thesis by (simp add: abs_le_iff)
  next
    assume "round_half_even y = f + 1 \<and> 1 / 2 \<le> y - of_int f"
    with b show ?thesis by (simp add: abs_le_iff)
  qed
qed

text \<open>In the normal range, \<open>to_double\<close> is within half a unit in the last place, a
  relative error of at most \<open>2^-53\<close>.\<close>

lemma to_double_close:
  assumes "x \<noteq> 0" and "- 1022 \<le> binade x"
  shows "\<bar>to_double x - x\<bar> \<le> pow2 (binade x - 53) \<and> pow2 (binade x - 53) \<le> \<bar>x\<bar> / 2 ^ 53"
proof -
  define u where "u = pow2 (binade x - 52)"
  have u: "0 < u" unfolding u_def by (rule pow2_pos)
  have td: "to_double x = of_int (round_half_even (x / u)) * u"
    using assms by (simp add: to_double_def u_def max_def Let_def)
  have "to_double x - x = (of_int (round_half_even (x / u)) - x / u) * u"
    using u by (simp add: td field_simps)
  then have "\<bar>to_double x - x\<bar> = \<bar>of_int (round_half_even (x / u)) - x / u\<bar> * u"
    using u by (simp add: abs_mult)
  also have "\<dots> \<le> (1 / 2) * u"
    using round_half_even_close [of "x / u"] u by (rule mult_right_mono [OF _ less_imp_le])
  also have "(1 / 2) * u = pow2 (binade x - 53)"
    using pow2_add [of "binade x - 53" 1] by (simp add: u_def pow2_def)
  finally have c: "\<bar>to_double x - x\<bar> \<le> pow2 (binade x - 53)" .
  have "pow2 (binade x) = pow2 (binade x - 53) * 2 ^ 53"
    using pow2_add [of "binade x - 53" 53] by (simp add: pow2_def)
  with binade_bounds [OF assms(1)] have "pow2 (binade x - 53) * 2 ^ 53 \<le> \<bar>x\<bar>" by simp
  then have "pow2 (binade x - 53) \<le> \<bar>x\<bar> / 2 ^ 53" by (simp add: pos_le_divide_eq)
  with c show ?thesis by simp
qed

section \<open>Prices\<close>







section \<open>The end of the handler\<close>





section \<open>The arithmetic of the handler on three requests\<close>

text \<open>The soup costs 8.29 at 50% off: the product with 100 is the double below 414.5, so
  the price is 4.14.\<close>

lemma soup_price_in_doubles:
  "m_price (sample_menu ! 2) = to_double (829 / 100) \<and>
   m_discountPercentage (sample_menu ! 2) = 50 \<and>
   calculatePrice (sample_menu ! 2) [] = to_double (414 / 100) \<and>
   to_double (414 / 100) < to_double (415 / 100)"
  by code_simp

text \<open>Bread, pasta and tea cost 1.10, 11.95 and 1.95: the subtotal accumulates to the
  double below 15, which is 14.999999999999998.\<close>

lemma three_items_subtotal_in_doubles:
  "validate_items 20 sample_menu sample_three (0, 0, []) =
     Inr (15 - 1 / 2 ^ 49, 10,
       [\<lparr>oi_menuItem = 103, oi_name = ''Bread'', oi_price = to_double (11 / 10),
         oi_quantity = 1, oi_subtotal = to_double (11 / 10)\<rparr>,
        \<lparr>oi_menuItem = 104, oi_name = ''Pasta'', oi_price = to_double (1195 / 100),
         oi_quantity = 1, oi_subtotal = to_double (1195 / 100)\<rparr>,
        \<lparr>oi_menuItem = 105, oi_name = ''Tea'', oi_price = to_double (195 / 100),
         oi_quantity = 1, oi_subtotal = to_double (195 / 100)\<rparr>])"
  by code_simp

text \<open>A delivery with subtotal 15.03 and fee 3 has total 19.532999999999998, the double
  below the one nearest to 19.533; with subtotal 20 the total is the double 25.\<close>

lemma pricing_in_doubles:
  "pr_total (compute_pricing sample_restaurant delivery None (to_double (1503 / 100)))
     = to_double (19532999999999998 / 10 ^ 15) \<and>
   to_double (19532999999999998 / 10 ^ 15) < to_double (19533 / 1000) \<and>
   pr_total (compute_pricing sample_restaurant delivery None 20) = 25"
  by code_simp

section \<open>No order is created\<close>







section \<open>Status transitions\<close>

lemma findByIntent_intent:
  "findByIntent store pid = Some d \<Longrightarrow> stripePaymentIntentId (order_payment d) = Some pid"
  unfolding findByIntent_def by (induction store) (auto split: if_splits)

lemma findByIntent_save:
  "findByIntent store pid = Some d \<Longrightarrow> order_id e = order_id d \<Longrightarrow>
   stripePaymentIntentId (order_payment e) = Some pid \<Longrightarrow>
   findByIntent (save now d e store) pid = Some (timeline_hook now d e)"
  unfolding findByIntent_def save_def by (simp add: find_write_back)

lemma updateOrderStatus_writes:
  assumes "findById store oid = Some doc"
    and "user_role user = role_admin \<or>
         (user_role user = role_restaurant \<and>
          map_option r_id (Restaurant_findByOwner rs (user_id user)) = Some (restaurant doc))"
    and "new_status \<in> {confirmed, preparing, ready_for_pickup}"
  shows "resp_success (fst (updateOrderStatus now user rs oid new_status rnotes store)) \<and>
         map_option status (findById (snd (updateOrderStatus now user rs oid new_status rnotes store)) oid)
           = Some new_status"
  using assms
  by (auto simp: updateOrderStatus_def authorize_def Let_def findById_save split: option.splits)

lemma adminUpdateOrderStatus_writes:
  assumes "findById store oid = Some doc"
    and "user_role user = role_admin"
  shows "resp_success (fst (adminUpdateOrderStatus now user oid new_status rnotes store)) \<and>
         map_option status (findById (snd (adminUpdateOrderStatus now user oid new_status rnotes store)) oid)
           = Some new_status"
  using assms
  by (cases new_status) (auto simp: adminUpdateOrderStatus_def authorize_def Let_def findById_save)

lemma updateDeliveryStatus_writes:
  assumes "findById store oid = Some doc"
    and "user_role user = role_delivery"
    and "map_option dt_deliveryPerson (deliveryTracking doc) = Some (Some (user_id user))"
    and "new_status \<in> {picked_up, on_the_way, delivered}"
  shows "resp_success (fst (updateDeliveryStatus now user oid new_status loc rnotes photo store)) \<and>
         map_option status
           (findById (snd (updateDeliveryStatus now user oid new_status loc rnotes photo store)) oid)
           = Some new_status"
  using assms
  by (auto simp: updateDeliveryStatus_def authorize_def Let_def findById_save split: option.splits)

lemma assignDelivery_guard:
  assumes "findById store oid = Some doc"
    and "resp_success (fst (assignDelivery now user oid store))"
  shows "status doc = ready_for_pickup \<and>
         map_option status (findById (snd (assignDelivery now user oid store)) oid) = Some picked_up"
  using assms
  by (auto simp: assignDelivery_def authorize_def Let_def findById_save split: option.splits if_splits)

lemma cancelOrder_guard:
  assumes "findById store oid = Some doc"
    and "resp_success (fst (cancelOrder now user oid reason store))"
  shows "canBeCancelled doc \<and>
         map_option status (findById (snd (cancelOrder now user oid reason store)) oid) = Some cancelled"
  using assms
  by (auto simp: cancelOrder_def Let_def findById_save split: option.splits if_splits)

lemma handlePaymentSuccess_status:
  assumes "findByIntent store pid = Some doc"
  shows "map_option status (findByIntent (handlePaymentSuccess now pid charges store) pid)
           = Some (if status doc = pending then confirmed else status doc)"
  using assms findByIntent_intent[OF assms]
  by (auto simp: handlePaymentSuccess_def Let_def findByIntent_save)

text \<open>
  C2, as the specification states it, fails: the status update of the orders route takes
  a delivered order back to confirmed, from progress 100 to progress 25, and answers
  with success.
\<close>

theorem status_update_moves_backwards:
  "status (sample_order delivered pay_completed) = delivered \<and>
   fst (updateOrderStatus 7 sample_admin [] 1 confirmed None
          [sample_order delivered pay_completed])
     = Response 200 True ''Order status updated successfully'' \<and>
   map status (snd (updateOrderStatus 7 sample_admin [] 1 confirmed None
                      [sample_order delivered pay_completed])) = [confirmed] \<and>
   getProgressPercentage confirmed < getProgressPercentage delivered"
  by (simp add: updateOrderStatus_def store_defs sample_defs Let_def)

text \<open>
  C2, amended. For an order in the collection: the status updates write the requested
  status without looking at the current one. A request of an admin, or of the owner of
  the order's restaurant, for confirmed, preparing or ready_for_pickup succeeds on the
  orders route and stores that status; a request of an admin for any status of the
  pipeline succeeds on the admin route and stores it; a request of the assigned courier
  for picked_up, on_the_way or delivered succeeds and stores it; each of them whatever
  the status was. Three operations do look at the current status: a cancel
  request succeeds only on an order that can be cancelled and stores cancelled;
  assigning a courier succeeds only on an order that is ready_for_pickup and stores
  picked_up; the payment-success webhook turns pending into confirmed and keeps every
  other status.
\<close>

theorem transitions_of_the_operations:
  assumes "findById store oid = Some doc"
  shows
   "(user_role user = role_admin \<or>
       (user_role user = role_restaurant \<and>
        map_option r_id (Restaurant_findByOwner rs (user_id user)) = Some (restaurant doc)) \<longrightarrow>
     new_status \<in> {confirmed, preparing, ready_for_pickup} \<longrightarrow>
       resp_success (fst (updateOrderStatus now user rs oid new_status rnotes store)) \<and>
       map_option status
         (findById (snd (updateOrderStatus now user rs oid new_status rnotes store)) oid)
         = Some new_status) \<and>
    (user_role user = role_admin \<longrightarrow> new_status \<notin> {cancelled, refunded} \<longrightarrow>
       resp_success (fst (adminUpdateOrderStatus now user oid new_status rnotes store)) \<and>
       map_option status
         (findById (snd (adminUpdateOrderStatus now user oid new_status rnotes store)) oid)
         = Some new_status) \<and>
    (user_role user = role_delivery \<longrightarrow>
     map_option dt_deliveryPerson (deliveryTracking doc) = Some (Some (user_id user)) \<longrightarrow>
     new_status \<in> {picked_up, on_the_way, delivered} \<longrightarrow>
       resp_success (fst (updateDeliveryStatus now user oid new_status loc rnotes photo store)) \<and>
       map_option status
         (findById (snd (updateDeliveryStatus now user oid new_status loc rnotes photo store)) oid)
         = Some new_status) \<and>
    (resp_success (fst (cancelOrder now user oid reason store)) \<longrightarrow>
       canBeCancelled doc \<and>
       map_option status (findById (snd (cancelOrder now user oid reason store)) oid)
         = Some cancelled) \<and>
    (resp_success (fst (assignDelivery now user oid store)) \<longrightarrow>
       status doc = ready_for_pickup \<and>
       map_option status (findById (snd (assignDelivery now user oid store)) oid)
         = Some picked_up) \<and>
    (findByIntent store pid = Some doc \<longrightarrow>
       map_option status (findByIntent (handlePaymentSuccess now pid charges store) pid)
         = Some (if status doc = pending then confirmed else status doc))"
proof -
  note a = updateOrderStatus_writes [OF assms, where user=user and rs=rs and new_status=new_status and now=now and rnotes=rnotes]
  note b = adminUpdateOrderStatus_writes [OF assms, where user=user and new_status=new_status and now=now and rnotes=rnotes]
  note c = updateDeliveryStatus_writes [OF assms, where user=user and new_status=new_status and now=now and rnotes=rnotes and loc=loc and photo=photo]
  note d = cancelOrder_guard [OF assms, where user=user and now=now and reason=reason]
  note e = assignDelivery_guard [OF assms, where user=user and now=now]
  note f = handlePaymentSuccess_status [where store=store and pid=pid and doc=doc and now=now and charges=charges]
  from a b c d e f show ?thesis by blast
qed


text \<open>An admin sets a delivered order to confirmed on the orders route and to pending on
  the admin route; the courier sets it to picked_up; the customer cancels a pending
  order; the courier is assigned to an order that is ready for pickup; the webhook
  confirms a pending order.\<close>

theorem transitions_of_the_operations_witness:
  "map_option status (findById (snd (updateOrderStatus 7 sample_admin [] 1 confirmed None
       [sample_order delivered pay_completed])) 1) = Some confirmed \<and>
   map_option status (findById (snd (adminUpdateOrderStatus 7 sample_admin 1 pending None
       [sample_order delivered pay_completed])) 1) = Some pending \<and>
   map_option status (findById (snd (updateDeliveryStatus 7 sample_courier 1 picked_up None None None
       [sample_order delivered pay_completed])) 1) = Some picked_up \<and>
   resp_success (fst (cancelOrder 7 sample_customer 1 ''late'' [sample_order pending pay_pending])) \<and>
   map_option status (findById (snd (cancelOrder 7 sample_customer 1 ''late''
       [sample_order pending pay_pending])) 1) = Some cancelled \<and>
   resp_success (fst (assignDelivery 7 sample_courier 1 [sample_order ready_for_pickup pay_completed])) \<and>
   map_option status (findById (snd (assignDelivery 7 sample_courier 1
       [sample_order ready_for_pickup pay_completed])) 1) = Some picked_up \<and>
   map_option status (findByIntent (handlePaymentSuccess 7 ''pi_1'' []
       [sample_order pending pay_processing]) ''pi_1'') = Some confirmed"
proof -
  have f: "\<And>st pst. findById [sample_order st pst] 1 = Some (sample_order st pst)"
    by (simp add: findById_def sample_order_def)
  have fi: "findByIntent [sample_order pending pay_processing] ''pi_1''
              = Some (sample_order pending pay_processing)"
    by (simp add: findByIntent_def sample_order_def)
  have adm: "user_role sample_admin = role_admin" by (simp add: sample_admin_def)
  have cou: "user_role sample_courier = role_delivery"
    and tr: "map_option dt_deliveryPerson (deliveryTracking (sample_order delivered pay_completed))
               = Some (Some (user_id sample_courier))"
    by (simp_all add: sample_courier_def sample_order_def sample_tracking_def)
  have okc: "resp_success (fst (cancelOrder 7 sample_customer 1 ''late''
               [sample_order pending pay_pending]))"
    by (simp add: cancelOrder_def store_defs sample_defs Let_def)
  have oka: "resp_success (fst (assignDelivery 7 sample_courier 1
               [sample_order ready_for_pickup pay_completed]))"
    by (simp add: assignDelivery_def store_defs sample_defs Let_def)
  have pe: "status (sample_order pending pay_processing) = pending"
    by (simp add: sample_order_def)
  from transitions_of_the_operations
         [OF f [of delivered pay_completed], where user=sample_admin and rs="[]"
            and new_status=confirmed and now=7 and rnotes=None]
       adm
  have g1: "map_option status (findById (snd (updateOrderStatus 7 sample_admin [] 1 confirmed None
       [sample_order delivered pay_completed])) 1) = Some confirmed" by simp
  from transitions_of_the_operations
         [OF f [of delivered pay_completed], where user=sample_admin
            and new_status=pending and now=7 and rnotes=None]
       adm
  have g2: "map_option status (findById (snd (adminUpdateOrderStatus 7 sample_admin 1 pending None
       [sample_order delivered pay_completed])) 1) = Some pending" by simp
  from transitions_of_the_operations
         [OF f [of delivered pay_completed], where user=sample_courier
            and new_status=picked_up and now=7 and rnotes=None and loc=None and photo=None]
       cou tr
  have g3: "map_option status (findById (snd (updateDeliveryStatus 7 sample_courier 1 picked_up
       None None None [sample_order delivered pay_completed])) 1) = Some picked_up" by simp
  from transitions_of_the_operations
         [OF f [of pending pay_pending], where user=sample_customer and now=7
            and reason="''late''"]
       okc
  have g4: "map_option status (findById (snd (cancelOrder 7 sample_customer 1 ''late''
       [sample_order pending pay_pending])) 1) = Some cancelled" by blast
  from transitions_of_the_operations
         [OF f [of ready_for_pickup pay_completed], where user=sample_courier and now=7]
       oka
  have g5: "map_option status (findById (snd (assignDelivery 7 sample_courier 1
       [sample_order ready_for_pickup pay_completed])) 1) = Some picked_up" by blast
  from transitions_of_the_operations
         [OF f [of pending pay_processing], where now=7 and pid="''pi_1''" and charges="[]"]
       fi pe
  have g6: "map_option status (findByIntent (handlePaymentSuccess 7 ''pi_1'' []
       [sample_order pending pay_processing]) ''pi_1'') = Some confirmed" by simp
  show ?thesis using g1 g2 g3 okc g4 oka g5 g6 by (intro conjI)
qed

section \<open>Timeline\<close>

lemma timeline_hook_timeline:
  "timeline (timeline_hook now loaded doc) =
     timeline doc @
       (if status doc \<noteq> status loaded
        then [\<lparr>te_status = status_name (status doc),
               te_message = ''Order status changed to '' @ status_name (status doc),
               te_timestamp = now, te_updatedBy = None\<rparr>]
        else [])"
  by (simp add: timeline_hook_def isModified_status_def)

text \<open>The timeline after a successful status update of the orders route: the old
  timeline, the entry of the handler and, when the status differs from the one that was
  loaded, the entry of the hook.\<close>

lemma updateOrderStatus_timeline:
  assumes "findById store oid = Some doc"
    and "resp_success (fst (updateOrderStatus now user rs oid new_status rnotes store))"
  shows "map_option timeline
           (findById (snd (updateOrderStatus now user rs oid new_status rnotes store)) oid)
         = Some (timeline doc @
             [\<lparr>te_status = status_name new_status,
               te_message = ''Order status updated to '' @ status_name new_status,
               te_timestamp = now, te_updatedBy = Some (user_id user)\<rparr>] @
             (if new_status \<noteq> status doc
              then [\<lparr>te_status = status_name new_status,
                     te_message = ''Order status changed to '' @ status_name new_status,
                     te_timestamp = now, te_updatedBy = None\<rparr>]
              else []))"
  using assms
  by (auto simp: updateOrderStatus_def Let_def findById_save timeline_hook_timeline
        push_timeline_def split: option.splits if_splits)

text \<open>No operation shortens or rewrites a timeline: the timeline of the order afterwards
  is the one before, followed by at most two entries (at most one for a webhook).\<close>

lemma updateOrderStatus_extends_timeline:
  "findById store oid = Some doc \<Longrightarrow>
   \<exists>doc' es. findById (snd (updateOrderStatus now user rs oid new_status rnotes store)) oid
              = Some doc' \<and> timeline doc' = timeline doc @ es \<and> length es \<le> 2"
  by (auto simp: updateOrderStatus_def Let_def findById_save timeline_hook_timeline
        push_timeline_def split: option.splits if_splits)

lemma adminUpdateOrderStatus_extends_timeline:
  "findById store oid = Some doc \<Longrightarrow>
   \<exists>doc' es. findById (snd (adminUpdateOrderStatus now user oid new_status rnotes store)) oid
              = Some doc' \<and> timeline doc' = timeline doc @ es \<and> length es \<le> 2"
  by (auto simp: adminUpdateOrderStatus_def Let_def findById_save timeline_hook_timeline
        push_timeline_def split: option.splits if_splits)

lemma updateDeliveryStatus_extends_timeline:
  "findById store oid = Some doc \<Longrightarrow>
   \<exists>doc' es. findById (snd (updateDeliveryStatus now user oid new_status loc rnotes photo store)) oid
              = Some doc' \<and> timeline doc' = timeline doc @ es \<and> length es \<le> 2"
  by (auto simp: updateDeliveryStatus_def Let_def findById_save timeline_hook_timeline
        push_timeline_def split: option.splits if_splits)

lemma assignDelivery_extends_timeline:
  "findById store oid = Some doc \<Longrightarrow>
   \<exists>doc' es. findById (snd (assignDelivery now user oid store)) oid
              = Some doc' \<and> timeline doc' = timeline doc @ es \<and> length es \<le> 2"
  by (auto simp: assignDelivery_def Let_def findById_save timeline_hook_timeline
        push_timeline_def split: option.splits if_splits)

lemma cancelOrder_extends_timeline:
  "findById store oid = Some doc \<Longrightarrow>
   \<exists>doc' es. findById (snd (cancelOrder now user oid reason store)) oid
              = Some doc' \<and> timeline doc' = timeline doc @ es \<and> length es \<le> 2"
  by (auto simp: cancelOrder_def Let_def findById_save timeline_hook_timeline
        push_timeline_def split: option.splits if_splits)

lemma refundOrder_extends_timeline:
  "findById store oid = Some doc \<Longrightarrow>
   \<exists>doc' es. findById (snd (refundOrder toString now user oid reason created store)) oid
              = Some doc' \<and> timeline doc' = timeline doc @ es \<and> length es \<le> 2"
  by (auto simp: refundOrder_def Let_def findById_save timeline_hook_timeline
        push_timeline_def split: option.splits if_splits)

lemma webhook_extends_timeline:
  assumes "findByIntent store pid = Some doc"
  shows "\<exists>doc' es. findByIntent (handlePaymentSuccess now pid charges store) pid = Some doc' \<and>
                   timeline doc' = timeline doc @ es \<and> length es \<le> 1"
    and "\<exists>doc' es. findByIntent (handlePaymentFailure now pid store) pid = Some doc' \<and>
                   timeline doc' = timeline doc @ es \<and> length es \<le> 1"
    and "\<exists>doc' es. findByIntent (handleRefundCreated now pid cents store) pid = Some doc' \<and>
                   timeline doc' = timeline doc @ es \<and> length es \<le> 1"
  using assms findByIntent_intent [OF assms]
  by (auto simp: handlePaymentSuccess_def handlePaymentFailure_def handleRefundCreated_def
        Let_def findByIntent_save timeline_hook_timeline)

text \<open>
  C1, evaluated where it fails. An admin confirms a pending order: the handler pushes its
  entry and the hook of \<open>save\<close> pushes another one for the same change, so the empty
  timeline has two entries afterwards, not one.
\<close>

theorem status_update_appends_two_entries:
  "timeline (sample_order pending pay_pending) = [] \<and>
   map timeline (snd (updateOrderStatus 7 sample_admin [] 1 confirmed None
                        [sample_order pending pay_pending]))
     = [[\<lparr>te_status = ''confirmed'', te_message = ''Order status updated to confirmed'',
          te_timestamp = 7, te_updatedBy = Some 11\<rparr>,
         \<lparr>te_status = ''confirmed'', te_message = ''Order status changed to confirmed'',
          te_timestamp = 7, te_updatedBy = None\<rparr>]]"
  by (simp add: updateOrderStatus_def store_defs sample_defs Let_def)

section \<open>The opening-hours gate\<close>

text \<open>Whatever the request, the restaurants and the time: the handler never creates an
  order. An inactive or missing restaurant gives 404, one with \<open>isOpen\<close> false gives 400,
  and for every other one \<open>isCurrentlyOpen\<close> raises.\<close>

lemma createOrder_never_succeeds:
  "\<not> resp_success
       (fst (createOrder toString distanceFrom now timeString user new_id rs menu body store))"
  by (auto simp: createOrder_def isCurrentlyOpen_def Date_toLocaleLowerCase_def
           split: option.splits prod.splits sum.splits if_splits)

text \<open>
  C3, where it fails. For every restaurant that is active and has \<open>isOpen\<close> set, at every
  time, \<open>isCurrentlyOpen\<close> raises a TypeError instead of returning; a request that passes
  the validators and names such a restaurant is answered with status 500 and creates no
  order, whatever the operating hours are.
\<close>

theorem isCurrentlyOpen_raises:
  assumes "r_isActive r" and "r_isOpen r"
  shows "isCurrentlyOpen r now timeString = Inl TypeError \<and>
         (Restaurant_findById rs rid = Some r \<longrightarrow>
          b_restaurant body = Some rid \<longrightarrow> b_orderType body = Some otype \<longrightarrow>
          b_items body \<noteq> [] \<longrightarrow>
          (otype = delivery \<longrightarrow> b_deliveryAddress body \<noteq> None) \<longrightarrow>
            createOrder toString distanceFrom now timeString user new_id rs menu body store
              = (Response 500 False ''Failed to create order'', store))"
  using assms
  by (auto simp: createOrder_def isCurrentlyOpen_def Date_toLocaleLowerCase_def)

text \<open>The restaurant is active and open around the clock, the request is a valid pickup
  order above the minimum, sent at noon.\<close>

theorem isCurrentlyOpen_raises_witness:
  "r_isActive sample_restaurant \<and> r_isOpen sample_restaurant \<and>
   isCurrentlyOpen sample_restaurant 7 ''12:00:00 GMT+0000'' = Inl TypeError \<and>
   createOrder sample_toString sample_distance 7 ''12:00:00 GMT+0000'' sample_customer 2
      [sample_restaurant] sample_menu (sample_body pickup sample_pizza) []
     = (Response 500 False ''Failed to create order'', [])"
proof -
  have a: "r_isActive sample_restaurant" and b: "r_isOpen sample_restaurant"
    by (simp_all add: sample_restaurant_def)
  have f: "Restaurant_findById [sample_restaurant] 20 = Some sample_restaurant"
    by (simp add: Restaurant_findById_def sample_restaurant_def)
  have r: "b_restaurant (sample_body pickup sample_pizza) = Some 20"
    and t: "b_orderType (sample_body pickup sample_pizza) = Some pickup"
    and i: "b_items (sample_body pickup sample_pizza) \<noteq> []"
    by (simp_all add: sample_body_def sample_pizza_def)
  from isCurrentlyOpen_raises [OF a b, where rs="[sample_restaurant]" and rid=20
         and body="sample_body pickup sample_pizza" and otype=pickup] f r t i
  have "isCurrentlyOpen sample_restaurant 7 ''12:00:00 GMT+0000'' = Inl TypeError"
    and "createOrder sample_toString sample_distance 7 ''12:00:00 GMT+0000'' sample_customer 2
           [sample_restaurant] sample_menu (sample_body pickup sample_pizza) []
         = (Response 500 False ''Failed to create order'', [])"
    by blast+
  with a b show ?thesis by (intro conjI)
qed

section \<open>Refunds\<close>

text \<open>The refund endpoint refuses an order whose payment is not completed.\<close>

lemma refundOrder_guard:
  "findById store oid = Some doc \<Longrightarrow> pay_status (order_payment doc) \<noteq> pay_completed \<Longrightarrow>
   \<not> resp_success (fst (refundOrder toString now user oid reason created store)) \<and>
   snd (refundOrder toString now user oid reason created store) = store"
  by (auto simp: refundOrder_def Let_def split: option.splits)

text \<open>
  C9, evaluated where it fails. The payment of the order is still processing. The refund
  endpoint refuses it with status 400, but the webhook for a created refund of the same
  payment intent sets the payment status, and the status, to refunded.
\<close>

theorem refund_webhook_ignores_payment_status:
  "map (\<lambda>d. pay_status (order_payment d)) [sample_order pending pay_processing]
     = [pay_processing] \<and>
   map (\<lambda>d. (status d, pay_status (order_payment d)))
       (snd (webhook 7 (Some (RefundCreated ''pi_1'' 2500)) [sample_order pending pay_processing]))
     = [(refunded, pay_refunded)] \<and>
   refundOrder sample_toString 7 sample_customer 1 None (Some 2500)
       [sample_order pending pay_processing]
     = (Response 400 False ''Cannot refund unpaid order'', [sample_order pending pay_processing])"
  by (simp add: webhook_def handleRefundCreated_def refundOrder_def store_defs sample_defs Let_def)

end
